theory Spec2Isabelle
  imports Complex_Main
begin

section \<open>The revenue calculator's projection engine\<close>

text \<open>
  The component \<open>RevenueCalculator\<close> of \<open>src/components/revenuecalculator.js\<close> holds
  three inputs and two derived values in React state and recomputes the derived values in
  one effect. The embedding follows that effect and the two expressions of the render
  function that compute the daily increase and the experiment lift.

  A JavaScript number is modelled as a \<open>real\<close> wherever the code's arithmetic cannot
  leave the finite numbers (the effect divides by \<open>experimentDays\<close> only behind its
  guard, and otherwise by the constants 12, 100 and 2). Rounding to double precision and
  overflow are not modelled: the arithmetic is the exact one the formulas denote. The two
  divisions of the render function are unguarded, so their results are values of
  \<open>jsnum\<close>, which adds the non-finite results of a division by zero.
\<close>

subsection \<open>Data\<close>

text \<open>The object passed to \<open>setAnnualProjection\<close> (lines 10-15 and 35-40).\<close>

record AnnualProjection =
  rawValue :: real
  afterNovelty :: real
  lowerRange :: real
  upperRange :: real

text \<open>One entry pushed to \<open>data\<close> by the chart loop (lines 54-58).\<close>

record ChartPoint =
  month :: nat
  efficacy :: real
  projectedValue :: real

text \<open>The component's state, one field for each \<open>useState\<close> (lines 6-15).\<close>

record CalcState =
  experimentDays :: real
  controlRevenue :: real
  variantRevenue :: real
  chartData :: "ChartPoint list"
  annualProjection :: AnnualProjection

definition initialState :: CalcState where
  "initialState =
     \<lparr>experimentDays = 14, controlRevenue = 1000, variantRevenue = 1200, chartData = [],
      annualProjection = \<lparr>rawValue = 0, afterNovelty = 0, lowerRange = 0, upperRange = 0\<rparr>\<rparr>"

text \<open>
  Lines 106, 118 and 130: the three change handlers, each clamping the number parsed from
  the input field (\<open>x\<close> here) before storing it.
\<close>

definition onExperimentDaysChange :: "real \<Rightarrow> CalcState \<Rightarrow> CalcState" where
  "onExperimentDaysChange x s = s\<lparr>experimentDays := max 1 x\<rparr>"

definition onControlRevenueChange :: "real \<Rightarrow> CalcState \<Rightarrow> CalcState" where
  "onControlRevenueChange x s = s\<lparr>controlRevenue := max 0 x\<rparr>"

definition onVariantRevenueChange :: "real \<Rightarrow> CalcState \<Rightarrow> CalcState" where
  "onVariantRevenueChange x s = s\<lparr>variantRevenue := max 0 x\<rparr>"

subsection \<open>The chart loop\<close>

text \<open>
  Lines 44-59: \<open>for (let month = 0; month <= 12; month++)\<close>, pushing one point for each
  month. The loop counter is \<open>mth\<close> here, since \<open>month\<close> names the field.
\<close>

function chartDataLoop :: "real \<Rightarrow> nat \<Rightarrow> ChartPoint list \<Rightarrow> ChartPoint list" where
  "chartDataLoop rawAnnualValue mth data =
     (if mth \<le> 12 then
        (let progress = real mth / 12;
             efficacyPercentage = 100 - (25 * (progress * progress * progress + progress) / 2);
             monthlyValue = rawAnnualValue / 12 * (efficacyPercentage / 100)
         in chartDataLoop rawAnnualValue (mth + 1)
              (data @ [\<lparr>month = mth, efficacy = efficacyPercentage,
                        projectedValue = monthlyValue\<rparr>]))
      else data)"
  by pat_completeness auto
termination
  by (relation "measure (\<lambda>(rawAnnualValue, mth, data). 13 - mth)") auto

subsection \<open>The projection effect\<close>

text \<open>
  Lines 19-62. The effect either returns early, calling no setter (\<open>None\<close>), or calls
  \<open>setAnnualProjection\<close> and \<open>setChartData\<close> once each (\<open>Some\<close> of the two
  arguments).
\<close>

definition projectionEffect ::
  "real \<Rightarrow> real \<Rightarrow> real \<Rightarrow> (AnnualProjection \<times> ChartPoint list) option" where
  "projectionEffect experimentDays' controlRevenue' variantRevenue' =
     (if experimentDays' \<le> 0 then None
      else
        (let dailyRevenueDifference = variantRevenue' - controlRevenue';
             rawAnnualValue = (dailyRevenueDifference / experimentDays') * 365;
             afterNoveltyEffect = rawAnnualValue * 0.75;
             lowerRange' = afterNoveltyEffect * 0.7;
             upperRange' = afterNoveltyEffect
         in Some (\<lparr>rawValue = rawAnnualValue, afterNovelty = afterNoveltyEffect,
                    lowerRange = lowerRange', upperRange = upperRange'\<rparr>,
                  chartDataLoop rawAnnualValue 0 [])))"

text \<open>The effect run on a state: the setters replace the two held values.\<close>

definition runEffect :: "CalcState \<Rightarrow> CalcState" where
  "runEffect s =
     (case projectionEffect (experimentDays s) (controlRevenue s) (variantRevenue s) of
        None \<Rightarrow> s
      | Some (projection, data) \<Rightarrow> s\<lparr>annualProjection := projection, chartData := data\<rparr>)"

subsection \<open>The render function's arithmetic\<close>

text \<open>
  A JavaScript number as the render function can produce it: finite, or one of the three
  non-finite values. Signed zeros are not told apart.
\<close>

datatype jsnum = Fin real | PosInf | NegInf | NaN

fun js_div :: "jsnum \<Rightarrow> jsnum \<Rightarrow> jsnum" where
  "js_div NaN _ = NaN"
| "js_div _ NaN = NaN"
| "js_div (Fin a) (Fin b) =
     (if b \<noteq> 0 then Fin (a / b)
      else if 0 < a then PosInf else if a < 0 then NegInf else NaN)"
| "js_div (Fin a) _ = Fin 0"
| "js_div PosInf (Fin b) = (if 0 \<le> b then PosInf else NegInf)"
| "js_div NegInf (Fin b) = (if 0 \<le> b then NegInf else PosInf)"
| "js_div _ _ = NaN"

fun js_sub :: "jsnum \<Rightarrow> jsnum \<Rightarrow> jsnum" where
  "js_sub NaN _ = NaN"
| "js_sub _ NaN = NaN"
| "js_sub (Fin a) (Fin b) = Fin (a - b)"
| "js_sub (Fin a) PosInf = NegInf"
| "js_sub (Fin a) NegInf = PosInf"
| "js_sub PosInf PosInf = NaN"
| "js_sub PosInf _ = PosInf"
| "js_sub NegInf NegInf = NaN"
| "js_sub NegInf _ = NegInf"

fun js_mul :: "jsnum \<Rightarrow> jsnum \<Rightarrow> jsnum" where
  "js_mul NaN _ = NaN"
| "js_mul _ NaN = NaN"
| "js_mul (Fin a) (Fin b) = Fin (a * b)"
| "js_mul (Fin a) PosInf = (if 0 < a then PosInf else if a < 0 then NegInf else NaN)"
| "js_mul (Fin a) NegInf = (if 0 < a then NegInf else if a < 0 then PosInf else NaN)"
| "js_mul PosInf (Fin b) = (if 0 < b then PosInf else if b < 0 then NegInf else NaN)"
| "js_mul NegInf (Fin b) = (if 0 < b then NegInf else if b < 0 then PosInf else NaN)"
| "js_mul PosInf PosInf = PosInf"
| "js_mul NegInf NegInf = PosInf"
| "js_mul _ _ = NegInf"

text \<open>
  Line 146, the argument of \<open>formatCurrency\<close>:
  \<open>(variantRevenue - controlRevenue) / experimentDays\<close>.
\<close>

definition dailyRevenueIncrease :: "CalcState \<Rightarrow> jsnum" where
  "dailyRevenueIncrease s =
     js_div (js_sub (Fin (variantRevenue s)) (Fin (controlRevenue s))) (Fin (experimentDays s))"

text \<open>
  Line 147, the number on which \<open>toFixed(2)\<close> is called:
  \<open>(variantRevenue / controlRevenue - 1) * 100\<close>.
\<close>

definition experimentLift :: "CalcState \<Rightarrow> jsnum" where
  "experimentLift s =
     js_mul (js_sub (js_div (Fin (variantRevenue s)) (Fin (controlRevenue s))) (Fin 1)) (Fin 100)"

subsection \<open>Auxiliary definitions\<close>

text \<open>
  The body of the chart loop at one value of the counter: the point that iteration pushes.
  It serves the proofs only; \<open>chartDataLoop_step\<close> relates it to the loop.
\<close>

definition chartPointAt :: "real \<Rightarrow> nat \<Rightarrow> ChartPoint" where
  "chartPointAt rawAnnualValue mth =
     (let progress = real mth / 12;
          efficacyPercentage = 100 - (25 * (progress * progress * progress + progress) / 2);
          monthlyValue = rawAnnualValue / 12 * (efficacyPercentage / 100)
      in \<lparr>month = mth, efficacy = efficacyPercentage, projectedValue = monthlyValue\<rparr>)"

text \<open>The projection held after the effect has run on a state.\<close>

abbreviation heldProjection :: "CalcState \<Rightarrow> AnnualProjection" where
  "heldProjection s \<equiv> annualProjection (runEffect s)"

section \<open>The chart loop unfolded\<close>

declare chartDataLoop.simps [simp del]

lemma chartDataLoop_step:
  "mth \<le> 12 \<Longrightarrow>
   chartDataLoop r mth data = chartDataLoop r (Suc mth) (data @ [chartPointAt r mth])"
  by (subst chartDataLoop.simps) (simp only: Let_def chartPointAt_def if_True Suc_eq_plus1)

lemma chartDataLoop_exit: "\<not> mth \<le> 12 \<Longrightarrow> chartDataLoop r mth data = data"
  by (subst chartDataLoop.simps) simp

lemma chartDataLoop_from:
  "chartDataLoop r mth data = data @ map (chartPointAt r) [mth..<13]"
proof (induction "13 - mth" arbitrary: mth data)
  case 0
  then show ?case by (simp add: chartDataLoop_exit)
next
  case (Suc k)
  then have le: "mth \<le> 12" and k: "k = 13 - Suc mth" by simp_all
  from le have "[mth..<13] = mth # [Suc mth..<13]"
    by (simp add: upt_conv_Cons)
  with Suc.hyps(1) [OF k] le show ?case
    by (simp add: chartDataLoop_step)
qed

lemma chartDataLoop_series: "chartDataLoop r 0 [] = map (chartPointAt r) [0..<13]"
  by (simp add: chartDataLoop_from)

lemma chartDataLoop_nth: "mth \<le> 12 \<Longrightarrow> chartDataLoop r 0 [] ! mth = chartPointAt r mth"
  by (simp add: chartDataLoop_series del: upt.simps)

lemma efficacy_chartPointAt:
  "efficacy (chartPointAt r mth) = 100 - 25 * ((real mth / 12) ^ 3 + real mth / 12) / 2"
  by (simp add: chartPointAt_def Let_def power3_eq_cube)

lemma month_chartPointAt: "month (chartPointAt r mth) = mth"
  by (simp add: chartPointAt_def Let_def)

lemma projectedValue_chartPointAt:
  "projectedValue (chartPointAt r mth) = r / 12 * (efficacy (chartPointAt r mth) / 100)"
  by (simp add: chartPointAt_def Let_def)

lemma decay_term_mono:
  fixes p q :: real
  assumes "0 \<le> p" "p \<le> q"
  shows "p ^ 3 + p \<le> q ^ 3 + q"
  using assms by (intro add_mono power_mono) simp_all

lemma decay_term_bounds:
  fixes p :: real
  assumes "0 \<le> p" "p \<le> 1"
  shows "0 \<le> p ^ 3 + p" "p ^ 3 + p \<le> 2"
proof -
  show "0 \<le> p ^ 3 + p" using assms by simp
  have "p ^ 3 \<le> 1" using assms by (rule power_le_one)
  with assms show "p ^ 3 + p \<le> 2" by simp
qed

section \<open>The effect unfolded\<close>

text \<open>What the change handlers guarantee: a duration of at least 1, revenues of at least 0.\<close>

lemma onExperimentDaysChange_positive: "1 \<le> experimentDays (onExperimentDaysChange x s)"
  by (simp add: onExperimentDaysChange_def)

lemma onControlRevenueChange_nonneg: "0 \<le> controlRevenue (onControlRevenueChange x s)"
  by (simp add: onControlRevenueChange_def)

lemma onVariantRevenueChange_nonneg: "0 \<le> variantRevenue (onVariantRevenueChange x s)"
  by (simp add: onVariantRevenueChange_def)

lemma projectionEffect_positive:
  assumes "0 < d"
  shows "projectionEffect d c v =
     Some (\<lparr>rawValue = (v - c) / d * 365, afterNovelty = (v - c) / d * 365 * 0.75,
             lowerRange = (v - c) / d * 365 * 0.75 * 0.7,
             upperRange = (v - c) / d * 365 * 0.75\<rparr>,
           chartDataLoop ((v - c) / d * 365) 0 [])"
proof -
  from assms have "\<not> d \<le> 0" by simp
  then show ?thesis
    unfolding projectionEffect_def Let_def by (simp only: if_False)
qed

lemma projectionEffect_skip: "d \<le> 0 \<Longrightarrow> projectionEffect d c v = None"
  by (simp add: projectionEffect_def)

lemma runEffect_positive:
  assumes "0 < experimentDays s"
  shows "runEffect s = s\<lparr>annualProjection :=
       \<lparr>rawValue = (variantRevenue s - controlRevenue s) / experimentDays s * 365,
        afterNovelty = (variantRevenue s - controlRevenue s) / experimentDays s * 365 * 0.75,
        lowerRange = (variantRevenue s - controlRevenue s) / experimentDays s * 365 * 0.75 * 0.7,
        upperRange = (variantRevenue s - controlRevenue s) / experimentDays s * 365 * 0.75\<rparr>,
     chartData := chartDataLoop ((variantRevenue s - controlRevenue s) / experimentDays s * 365) 0 []\<rparr>"
  using assms by (simp add: runEffect_def projectionEffect_positive)







section \<open>The projection\<close>

text \<open>
  Claim C1. For every input with a positive duration the effect produces a projection, and
  the values satisfy: the daily lift (the value the render function shows as the daily
  revenue increase) is the revenue difference divided by the duration, the raw annual value
  is the daily lift times 365, the novelty-adjusted value is the raw annual value times
  0.75, the lower bound is the novelty-adjusted value times 0.7, and the upper bound is the
  novelty-adjusted value.
\<close>

theorem projection_fields:
  assumes "0 < experimentDays s"
  shows "dailyRevenueIncrease s = Fin ((variantRevenue s - controlRevenue s) / experimentDays s)
       \<and> (\<exists>data. projectionEffect (experimentDays s) (controlRevenue s) (variantRevenue s)
                  = Some (heldProjection s, data))
       \<and> rawValue (heldProjection s)
           = (variantRevenue s - controlRevenue s) / experimentDays s * 365
       \<and> afterNovelty (heldProjection s) = rawValue (heldProjection s) * 0.75
       \<and> lowerRange (heldProjection s) = afterNovelty (heldProjection s) * 0.7
       \<and> upperRange (heldProjection s) = afterNovelty (heldProjection s)"
proof -
  have "dailyRevenueIncrease s = Fin ((variantRevenue s - controlRevenue s) / experimentDays s)"
    using assms by (simp add: dailyRevenueIncrease_def)
  moreover have "\<exists>data. projectionEffect (experimentDays s) (controlRevenue s) (variantRevenue s)
                  = Some (heldProjection s, data)"
    using assms by (simp add: runEffect_positive projectionEffect_positive)
  moreover have "rawValue (heldProjection s)
           = (variantRevenue s - controlRevenue s) / experimentDays s * 365"
    using assms by (simp add: runEffect_positive)
  moreover have "afterNovelty (heldProjection s) = rawValue (heldProjection s) * 0.75"
    using assms by (simp add: runEffect_positive)
  moreover have "lowerRange (heldProjection s) = afterNovelty (heldProjection s) * 0.7"
    using assms by (simp add: runEffect_positive)
  moreover have "upperRange (heldProjection s) = afterNovelty (heldProjection s)"
    using assms by (simp add: runEffect_positive)
  ultimately show ?thesis by (simp only: simp_thms)
qed

theorem projection_fields_witness:
  "0 < experimentDays initialState
   \<and> dailyRevenueIncrease initialState = Fin (100 / 7)
   \<and> rawValue (heldProjection initialState) = 36500 / 7
   \<and> afterNovelty (heldProjection initialState) = 27375 / 7
   \<and> lowerRange (heldProjection initialState) = 5475 / 2
   \<and> upperRange (heldProjection initialState) = 27375 / 7"
  using projection_fields [of initialState] by (simp add: initialState_def)




section \<open>The experiment lift\<close>

text \<open>
  Claim C3 asks that a control revenue of 0 never lets an infinite or NaN lift reach the
  formatting. On the code, once the control-revenue field has been set to 0 (its handler
  admits 0), the number handed to \<open>toFixed\<close> is \<open>Infinity\<close> for the default
  variant revenue 1200, and \<open>NaN\<close> once the variant revenue is set to 0 as well: the
  division of line 147 is unguarded.
\<close>

theorem experimentLift_zero_control:
  "controlRevenue (onControlRevenueChange 0 initialState) = 0
   \<and> experimentLift (onControlRevenueChange 0 initialState) = PosInf
   \<and> experimentLift (onVariantRevenueChange 0 (onControlRevenueChange 0 initialState)) = NaN"
  by (simp add: experimentLift_def onControlRevenueChange_def onVariantRevenueChange_def
      initialState_def)

section \<open>The early return\<close>

text \<open>
  Claim C4. When the duration is zero or negative the effect calls no setter: the held
  projection and the held series are what they were before, and the result is a state, not
  an error.
\<close>

theorem skip_keeps_held_values:
  assumes "experimentDays s \<le> 0"
  shows "projectionEffect (experimentDays s) (controlRevenue s) (variantRevenue s) = None
       \<and> runEffect s = s
       \<and> annualProjection (runEffect s) = annualProjection s
       \<and> chartData (runEffect s) = chartData s"
  using assms by (simp add: runEffect_def projectionEffect_skip)

theorem skip_keeps_held_values_witness:
  "experimentDays (initialState\<lparr>experimentDays := 0\<rparr>) \<le> 0
   \<and> runEffect (initialState\<lparr>experimentDays := 0\<rparr>) = initialState\<lparr>experimentDays := 0\<rparr>
   \<and> annualProjection (runEffect (initialState\<lparr>experimentDays := 0\<rparr>))
       = \<lparr>rawValue = 0, afterNovelty = 0, lowerRange = 0, upperRange = 0\<rparr>
   \<and> chartData (runEffect (initialState\<lparr>experimentDays := 0\<rparr>)) = []"
  using skip_keeps_held_values [of "initialState\<lparr>experimentDays := 0\<rparr>"]
  by (simp add: initialState_def)

section \<open>The efficacy curve\<close>

text \<open>
  Claim C5. For every month index from 0 to 12, the efficacy of that entry of the series is
  \<open>100 - 25 * (progress ^ 3 + progress) / 2\<close> with \<open>progress\<close> the index divided by
  12, and it lies between 75 and 100.
\<close>

theorem efficacy_formula_and_range:
  assumes "mth \<le> 12"
  shows "efficacy (chartDataLoop r 0 [] ! mth) = 100 - 25 * ((real mth / 12) ^ 3 + real mth / 12) / 2
       \<and> 75 \<le> efficacy (chartDataLoop r 0 [] ! mth)
       \<and> efficacy (chartDataLoop r 0 [] ! mth) \<le> 100"
proof -
  let ?p = "real mth / 12"
  have e: "efficacy (chartDataLoop r 0 [] ! mth) = 100 - 25 * (?p ^ 3 + ?p) / 2"
    using assms by (simp only: chartDataLoop_nth efficacy_chartPointAt)
  have "0 \<le> ?p" "?p \<le> 1" using assms by simp_all
  then have "0 \<le> ?p ^ 3 + ?p" "?p ^ 3 + ?p \<le> 2"
    by (rule decay_term_bounds)+
  with e show ?thesis by simp
qed

theorem efficacy_formula_and_range_witness:
  "(5::nat) \<le> 12 \<and> efficacy (chartDataLoop 0 0 [] ! 5) = 324475 / 3456
   \<and> 75 \<le> efficacy (chartDataLoop 0 0 [] ! 5) \<and> efficacy (chartDataLoop 0 0 [] ! 5) \<le> 100"
  using efficacy_formula_and_range [of 5 0] by (simp add: power3_eq_cube)

text \<open>
  Claim C6. Whatever the raw annual value, the efficacy of the first entry (month 0) is 100
  and the efficacy of the last entry (month 12) is 75, as equalities.
\<close>

theorem efficacy_endpoints:
  "efficacy (chartDataLoop r 0 [] ! 0) = 100 \<and> efficacy (chartDataLoop r 0 [] ! 12) = 75"
  by (simp add: chartDataLoop_nth efficacy_chartPointAt)

text \<open>
  Claim C7. For every month index from 0 to 11, the efficacy of the entry is at least the
  efficacy of the next entry: the curve never increases over the 13 samples.
\<close>

theorem efficacy_non_increasing:
  assumes "mth \<le> 11"
  shows "efficacy (chartDataLoop r 0 [] ! (mth + 1)) \<le> efficacy (chartDataLoop r 0 [] ! mth)"
proof -
  let ?a = "(real mth / 12) ^ 3 + real mth / 12"
  let ?b = "(real (mth + 1) / 12) ^ 3 + real (mth + 1) / 12"
  have "?a \<le> ?b"
    by (rule decay_term_mono) simp_all
  then have "100 - 25 * ?b / 2 \<le> 100 - 25 * ?a / 2"
    by (intro diff_left_mono divide_right_mono mult_left_mono) simp_all
  moreover have "efficacy (chartDataLoop r 0 [] ! mth) = 100 - 25 * ?a / 2"
    using assms by (simp only: chartDataLoop_nth efficacy_chartPointAt)
  moreover have "efficacy (chartDataLoop r 0 [] ! (mth + 1)) = 100 - 25 * ?b / 2"
    using assms by (simp only: chartDataLoop_nth efficacy_chartPointAt)
  ultimately show ?thesis by (simp only:)
qed

theorem efficacy_non_increasing_witness:
  "(11::nat) \<le> 11 \<and> efficacy (chartDataLoop 7 0 [] ! (11 + 1)) \<le> efficacy (chartDataLoop 7 0 [] ! 11)"
  using efficacy_non_increasing [of 11 7] by simp

section \<open>The shape of the series\<close>

text \<open>
  Claim C8. For every raw annual value the series has 13 entries, with month indices 0 to
  12 in increasing order, and each projected value is the raw annual value divided by 12,
  times the entry's efficacy divided by 100. For the raw annual value 0 every projected
  value is 0, and the efficacies are those of any other raw annual value.
\<close>

theorem series_shape:
  "length (chartDataLoop r 0 []) = 13
   \<and> map month (chartDataLoop r 0 []) = [0..<13]
   \<and> map projectedValue (chartDataLoop r 0 [])
       = map (\<lambda>point. r / 12 * (efficacy point / 100)) (chartDataLoop r 0 [])
   \<and> map projectedValue (chartDataLoop 0 0 []) = replicate 13 0
   \<and> map efficacy (chartDataLoop 0 0 []) = map efficacy (chartDataLoop r 0 [])"
proof -
  have "length (chartDataLoop r 0 []) = 13"
    by (simp add: chartDataLoop_series del: upt.simps)
  moreover have "map month (chartDataLoop r 0 []) = [0..<13]"
    by (simp add: chartDataLoop_series month_chartPointAt o_def del: upt.simps)
  moreover have "map projectedValue (chartDataLoop r 0 [])
       = map (\<lambda>point. r / 12 * (efficacy point / 100)) (chartDataLoop r 0 [])"
    by (simp add: chartDataLoop_series projectedValue_chartPointAt o_def del: upt.simps)
  moreover have "map projectedValue (chartDataLoop 0 0 []) = replicate 13 0"
    by (simp add: chartDataLoop_series projectedValue_chartPointAt o_def map_replicate_const del: upt.simps)
  moreover have "map efficacy (chartDataLoop 0 0 []) = map efficacy (chartDataLoop r 0 [])"
    by (simp add: chartDataLoop_series efficacy_chartPointAt o_def del: upt.simps)
  ultimately show ?thesis by simp
qed

section \<open>Linearity of the raw annual value\<close>



section \<open>When the effect runs\<close>



end
